theory Spec2Isabelle
  imports Main "HOL-Library.AList"
begin

section \<open>The HTTP request handler of the tRPC server (packages/server/src/http/requestHandler.ts)\<close>

text \<open>
  The handler turns one HTTP request into one or several procedure calls and their
  outcomes into one HTTP response. Everything it calls but does not define (the router,
  the hooks of its options, the imported helpers, \<open>JSON.parse\<close> and
  \<open>JSON.stringify\<close>) is a parameter of the model: a field of one of the records
  \<open>Router\<close>, \<open>Options\<close> and \<open>Imports\<close>. A callee that may throw returns a sum, with
  \<open>Inl\<close> the thrown value: the context factory, the input transformer, a procedure
  and \<open>JSON.parse\<close>. The others (\<open>getErrorShape\<close>, \<open>responseMeta\<close>,
  \<open>getErrorFromUnknown\<close>, \<open>getHTTPStatusCode\<close>, \<open>transformTRPCResponse\<close>,
  \<open>JSON.stringify\<close>) are taken to return. A function of the handler that calls hooks
  returns the list of the invocations it made (type \<open>event\<close>) next to its result, so
  that ``the procedure was never invoked'' is a statement about that list. The \<open>async\<close>
  functions are modelled by what they settle with: fulfilled is \<open>Inr\<close>, rejected is
  \<open>Inl\<close>.

  Values do not change once made, with one exception. The \<open>onError\<close> hook is handed the
  very error object and the very input that the handler goes on to use, so it can write
  to them; a call of the hook therefore yields, besides the value it throws when it
  throws, the error and the input as it leaves them (type \<open>HookResult\<close>), and the
  handler continues with those. No other callee is taken to write to what it is handed,
  and the context is taken to stay as the context factory made it.
\<close>

subsection \<open>Values\<close>

text \<open>
  A JavaScript value of type \<open>unknown\<close>: \<open>undefined\<close>, or a JSON value. Numbers are
  integers here (no claim depends on fractions). An object is the list of its own
  enumerable properties, in the order \<open>for ... in\<close> enumerates them.
\<close>

datatype jsval =
    JUndefined
  | JNull
  | JBool bool
  | JNum int
  | JStr string
  | JArr "jsval list"
  | JObj "(string \<times> jsval) list"

text \<open>\<open>typeof v\<close>, \<open>Array.isArray(v)\<close> and \<open>v == null\<close>.\<close>

fun typeof :: "jsval \<Rightarrow> string" where
  "typeof JUndefined = ''undefined''"
| "typeof JNull = ''object''"
| "typeof (JBool _) = ''boolean''"
| "typeof (JNum _) = ''number''"
| "typeof (JStr _) = ''string''"
| "typeof (JArr _) = ''object''"
| "typeof (JObj _) = ''object''"

fun isArray :: "jsval \<Rightarrow> bool" where
  "isArray (JArr _) = True"
| "isArray _ = False"

fun eq_null :: "jsval \<Rightarrow> bool" where
  "eq_null JUndefined = True"
| "eq_null JNull = True"
| "eq_null _ = False"

text \<open>The keys and values \<open>for (const key in v)\<close> and \<open>v[key]\<close> deliver for an object.\<close>

fun entries :: "jsval \<Rightarrow> (string \<times> jsval) list" where
  "entries (JObj kvs) = kvs"
| "entries _ = []"

subsection \<open>Errors\<close>

text \<open>
  The error codes this file uses, and any other code a procedure may throw.
  A \<open>TRPCError\<close> is built from \<open>{code, message, originalError}\<close>; a thrown value is a
  \<open>TRPCError\<close>, a plain \<open>Error\<close> with its message, or any other value.
\<close>

datatype TRPC_ERROR_CODE =
    PARSE_ERROR
  | BAD_REQUEST
  | METHOD_NOT_SUPPORTED
  | INTERNAL_SERVER_ERROR
  | OTHER_CODE string

datatype TRPCError =
    TRPCError TRPC_ERROR_CODE "string option" "thrown option"
    \<comment> \<open>\<open>{code, message, originalError}\<close>\<close>
and thrown =
    ThrownTRPCError TRPCError
  | ThrownError string
  | ThrownValue jsval

subsection \<open>Requests, responses, envelopes\<close>

text \<open>
  What the constant \<open>type\<close> of line 77 can hold: one of the three strings of the table,
  the literal \<open>'unknown'\<close> of line 78, or, for a method that names a member of
  \<open>Object.prototype\<close>, that member (\<open>Inherited\<close> with the name it was found under).
\<close>

datatype ProcedureType = Query | Mutation | Subscription | Unknown | Inherited string

record HTTPRequest =
  "method" :: string
  query :: "(string \<times> string) list"  \<comment> \<open>\<open>URLSearchParams\<close>: name/value pairs in order\<close>
  req_headers :: "(string \<times> string) list"
  req_body :: jsval

definition query_has :: "(string \<times> string) list \<Rightarrow> string \<Rightarrow> bool" where
  "query_has q name \<longleftrightarrow> name \<in> fst ` set q"

definition query_get :: "(string \<times> string) list \<Rightarrow> string \<Rightarrow> string option" where
  "query_get q name = map_of q name"

datatype header_value = HString string | HStrings "string list" | HUndefined

type_synonym HTTPHeaders = "(string \<times> header_value) list"

record HTTPResponse =
  status :: int
  body :: "string option"
  headers :: "HTTPHeaders option"

text \<open>
  \<open>TRPCResultResponse\<close> is \<open>{id: null, result: {type: 'data', data}}\<close> and
  \<open>TRPCErrorResponse\<close> is \<open>{id: null, error}\<close>; \<open>NoResponse\<close> is \<open>undefined\<close>, what
  \<open>resultEnvelopes[0]\<close> is on an empty array. The handler passes one envelope or an
  array of envelopes to \<open>endResponse\<close>.
\<close>

datatype TRPCResponse = ResultResponse jsval | ErrorResponse jsval | NoResponse

datatype response_json = Single TRPCResponse | Batch "TRPCResponse list"

subsection \<open>The collaborators\<close>

datatype ErrorShapeOpts =
  ErrorShapeOpts TRPCError ProcedureType "string option" jsval jsval
  \<comment> \<open>\<open>{error, type, path, input, ctx}\<close>\<close>

datatype OnErrorOpts =
  OnErrorOpts TRPCError "string option" jsval jsval ProcedureType HTTPRequest
  \<comment> \<open>\<open>{error, path, input, ctx, type, req}\<close>\<close>

datatype ResponseMetaOpts =
  ResponseMetaOpts jsval "string list option" ProcedureType "TRPCResponse list" "TRPCError list"
  \<comment> \<open>\<open>{ctx, paths, type, data, errors}\<close>\<close>

text \<open>
  The \<open>status\<close> a \<open>responseMeta\<close> hook returns is a JavaScript number: \<open>NaN\<close> or a
  number proper (an integer here; no claim depends on fractions or infinities). \<open>None\<close>
  is a field that is absent or \<open>undefined\<close>.
\<close>

datatype js_number = NaN | Number int

record ResponseMeta =
  meta_status :: "js_number option"
  meta_headers :: "HTTPHeaders option"

text \<open>
  What a call of the \<open>onError\<close> hook yields: the value it throws, if it throws, and the
  error and the input of its argument as it leaves them.
\<close>

datatype HookResult =
  HookResult (hook_throws: "thrown option") (error_left: TRPCError) (input_left: jsval)

record Router =
  deserialize :: "jsval \<Rightarrow> thrown + jsval"  \<comment> \<open>\<open>router._def.transformer.input.deserialize\<close>\<close>
  getErrorShape :: "ErrorShapeOpts \<Rightarrow> jsval"

record Options =
  createContext :: "thrown + jsval"  \<comment> \<open>what \<open>await createContext()\<close> yields\<close>
  onError :: "(OnErrorOpts \<Rightarrow> HookResult) option"
  router :: Router
  req :: HTTPRequest
  batching :: "bool option"  \<comment> \<open>\<open>opts.batching?.enabled\<close>\<close>
  responseMeta :: "(ResponseMetaOpts \<Rightarrow> ResponseMeta) option"
  path :: string

record Imports =
  callProcedure :: "Router \<Rightarrow> jsval \<Rightarrow> string \<Rightarrow> jsval \<Rightarrow> ProcedureType \<Rightarrow> thrown + jsval"
    \<comment> \<open>\<open>callProcedure({ctx, router, path, input, type})\<close>, as router, ctx, path, input, type\<close>
  getErrorFromUnknown :: "thrown \<Rightarrow> TRPCError"
  transformTRPCResponse :: "Router \<Rightarrow> response_json \<Rightarrow> response_json"
  getHTTPStatusCode :: "response_json \<Rightarrow> int"
  JSON_parse :: "string \<Rightarrow> thrown + jsval"
  JSON_stringify :: "response_json \<Rightarrow> string"

text \<open>The invocations of collaborators that the handler makes, in the order it makes them.\<close>

datatype event =
    CreateContext
  | Deserialize jsval
  | CallProcedure jsval string jsval ProcedureType  \<comment> \<open>ctx, path, input, type\<close>
  | OnError OnErrorOpts

type_synonym 'a effect = "event list \<times> (thrown + 'a)"

subsection \<open>Lines 38-63: the method table and the raw input\<close>

text \<open>
  The table is an object literal with three own properties. Like every object literal it
  inherits from \<open>Object.prototype\<close>, whose members are found by
  \<open>HTTP_METHOD_PROCEDURE_TYPE_MAP[req.method]\<close> as well: its twelve property names are
  listed in \<open>Object_prototype\<close>. \<open>req.method\<close> is whatever string the adapter put there.
\<close>

definition HTTP_METHOD_PROCEDURE_TYPE_MAP :: "(string \<times> ProcedureType) list" where
  "HTTP_METHOD_PROCEDURE_TYPE_MAP =
     [(''GET'', Query), (''POST'', Mutation), (''PATCH'', Subscription)]"

definition Object_prototype :: "string list" where
  "Object_prototype =
     [''constructor'', ''__defineGetter__'', ''__defineSetter__'', ''hasOwnProperty'',
      ''__lookupGetter__'', ''__lookupSetter__'', ''isPrototypeOf'', ''propertyIsEnumerable'',
      ''toString'', ''valueOf'', ''__proto__'', ''toLocaleString'']"

definition getRawProcedureInputOrThrow :: "Imports \<Rightarrow> HTTPRequest \<Rightarrow> thrown + jsval" where
  "getRawProcedureInputOrThrow env r =
     (case (if method r = ''GET'' then
              (if \<not> query_has (query r) ''input'' then Inr JUndefined
               else (case query_get (query r) ''input'' of
                       Some raw \<Rightarrow> JSON_parse env raw
                     | None \<Rightarrow> JSON_parse env ''null''))  \<comment> \<open>\<open>JSON.parse(null)\<close>\<close>
            else (case req_body r of
                    JStr s \<Rightarrow> JSON_parse env s
                  | b \<Rightarrow> Inr b))
      of Inr v \<Rightarrow> Inr v
       | Inl originalError \<Rightarrow>
           Inl (ThrownTRPCError (TRPCError PARSE_ERROR None (Some originalError))))"

subsection \<open>Lines 69-82: what the handler fixes before the \<open>try\<close>\<close>

definition batchingEnabled :: "Options \<Rightarrow> bool" where
  "batchingEnabled opts = (case batching opts of Some enabled \<Rightarrow> enabled | None \<Rightarrow> True)"

text \<open>
  Line 77: an own property of the table, else an inherited member, else (the lookup is
  \<open>undefined\<close>, and \<open>??\<close> takes its right-hand side) \<open>'unknown'\<close>.
\<close>

definition procedure_type :: "string \<Rightarrow> ProcedureType" where
  "procedure_type m =
     (case map_of HTTP_METHOD_PROCEDURE_TYPE_MAP m of
        Some t \<Rightarrow> t
      | None \<Rightarrow> if m \<in> set Object_prototype then Inherited m else Unknown)"

definition isBatchCall :: "HTTPRequest \<Rightarrow> bool" where
  "isBatchCall r \<longleftrightarrow> query_get (query r) ''batch'' = Some ''1''"

text \<open>The variables \<open>ctx\<close> and \<open>paths\<close>, assigned in the \<open>try\<close> and read in the \<open>catch\<close>.\<close>

record vars =
  var_ctx :: jsval
  var_paths :: "string list option"

subsection \<open>Lines 86-122: \<open>endResponse\<close>\<close>

text \<open>
  \<open>headers\<close> is a plain object, modelled by the list of its own properties.
  \<open>headers[key] = value\<close> overwrites the header of that name or adds it, except for the
  key \<open>__proto__\<close>: that assignment reaches the setter of \<open>Object.prototype\<close> and
  stores no property (it replaces the prototype of \<open>headers\<close> when the value is an
  array, and does nothing otherwise). \<open>if (meta.status)\<close> holds for a status that is
  present and neither 0 nor \<open>NaN\<close>.
\<close>

definition set_header :: "HTTPHeaders \<Rightarrow> string \<Rightarrow> header_value \<Rightarrow> HTTPHeaders" where
  "set_header h key value = (if key = ''__proto__'' then h else AList.update key value h)"

definition endResponse ::
  "Imports \<Rightarrow> Options \<Rightarrow> vars \<Rightarrow> ProcedureType \<Rightarrow> response_json \<Rightarrow> TRPCError list \<Rightarrow> HTTPResponse"
where
  "endResponse env opts v type untransformedJSON errors =
     (let status0 = getHTTPStatusCode env untransformedJSON;
          headers0 = [(''Content-Type'', HString ''application/json'')];
          meta = (case responseMeta opts of
                    None \<Rightarrow> \<lparr>meta_status = None, meta_headers = None\<rparr>
                  | Some hook \<Rightarrow>
                      hook (ResponseMetaOpts (var_ctx v) (var_paths v) type
                              (case untransformedJSON of Batch es \<Rightarrow> es | Single e \<Rightarrow> [e])
                              errors));
          headers1 = foldl (\<lambda>h (key, value). set_header h key value) headers0
                       (case meta_headers meta of Some hs \<Rightarrow> hs | None \<Rightarrow> []);
          status1 = (case meta_status meta of
                       Some (Number s) \<Rightarrow> if s \<noteq> 0 then s else status0
                     | Some NaN \<Rightarrow> status0
                     | None \<Rightarrow> status0);
          transformedJSON = transformTRPCResponse env (router opts) untransformedJSON
      in \<lparr>status = status1,
          body = Some (JSON_stringify env transformedJSON),
          headers = Some headers1\<rparr>)"

subsection \<open>Lines 139-171: the inputs\<close>

definition deserializeInputValue :: "Router \<Rightarrow> jsval \<Rightarrow> jsval effect" where
  "deserializeInputValue r rawValue =
     (if rawValue \<noteq> JUndefined then ([Deserialize rawValue], deserialize r rawValue)
      else ([], Inr rawValue))"

text \<open>
  \<open>input\<close> is a plain object written by \<open>input[k] = value\<close> with \<open>k\<close> the key string
  (the cast to \<open>number\<close> does nothing at run time) and read by \<open>inputs[index]\<close> with a
  number. Assigning to the key \<open>__proto__\<close> of a plain object stores no property: it
  replaces the object's prototype when the value is an object or \<open>null\<close>, and does
  nothing otherwise. Reading \<open>inputs[index]\<close> looks the decimal string of the index up
  among the own properties, then in the prototype.
\<close>

record input_record =
  own :: "(string \<times> jsval) list"
  proto :: "jsval option"  \<comment> \<open>\<open>None\<close>: \<open>Object.prototype\<close>, which has no index keys\<close>

definition set_property :: "input_record \<Rightarrow> string \<Rightarrow> jsval \<Rightarrow> input_record" where
  "set_property obj k v =
     (if k = ''__proto__'' then
        (if typeof v = ''object'' then obj\<lparr>proto := Some v\<rparr> else obj)
      else obj\<lparr>own := AList.update k v (own obj)\<rparr>)"

function ToString :: "nat \<Rightarrow> string" where
  "ToString n =
     (if n < 10 then [''0123456789'' ! n]
      else ToString (n div 10) @ [''0123456789'' ! (n mod 10)])"
  by pat_completeness auto
termination
  by (relation "measure id") auto

declare ToString.simps [simp del]

definition get_index :: "input_record \<Rightarrow> nat \<Rightarrow> jsval" where
  "get_index obj index =
     (case map_of (own obj) (ToString index) of
        Some v \<Rightarrow> v
      | None \<Rightarrow>
          (case proto obj of
             Some (JObj kvs) \<Rightarrow>
               (case map_of kvs (ToString index) of Some v \<Rightarrow> v | None \<Rightarrow> JUndefined)
           | Some (JArr xs) \<Rightarrow> (if index < length xs then xs ! index else JUndefined)
           | _ \<Rightarrow> JUndefined))"

fun getInputs_loop :: "Router \<Rightarrow> (string \<times> jsval) list \<Rightarrow> input_record \<Rightarrow> input_record effect" where
  "getInputs_loop r [] input = ([], Inr input)"
| "getInputs_loop r ((key, rawValue) # rest) input =
     (case deserializeInputValue r rawValue of
        (l, Inl e) \<Rightarrow> (l, Inl e)
      | (l, Inr value) \<Rightarrow>
          (case getInputs_loop r rest (set_property input key value) of
             (l', res) \<Rightarrow> (l @ l', res)))"

definition batch_input_message :: string where
  "batch_input_message =
     [CHR 0x22] @ ''input'' @ [CHR 0x22] @ '' needs to be an object when doing a batch call''"

definition getInputs :: "Router \<Rightarrow> bool \<Rightarrow> jsval \<Rightarrow> input_record effect" where
  "getInputs r batch rawInput =
     (if \<not> batch then
        (case deserializeInputValue r rawInput of
           (l, Inl e) \<Rightarrow> (l, Inl e)
         | (l, Inr value) \<Rightarrow> (l, Inr \<lparr>own = [(''0'', value)], proto = None\<rparr>))
      else if eq_null rawInput \<or> typeof rawInput \<noteq> ''object'' \<or> isArray rawInput then
        ([], Inl (ThrownTRPCError (TRPCError BAD_REQUEST (Some batch_input_message) None)))
      else getInputs_loop r (entries rawInput) \<lparr>own = [], proto = None\<rparr>)"

subsection \<open>Lines 173-200: the calls\<close>

text \<open>\<open>path.split(',')\<close>: the pieces between the separators, never an empty array.\<close>

fun split_on :: "char \<Rightarrow> string \<Rightarrow> string list" where
  "split_on sep [] = [[]]"
| "split_on sep (c # cs) =
     (if c = sep then [] # split_on sep cs
      else (case split_on sep cs of
              p # ps \<Rightarrow> (c # p) # ps
            | [] \<Rightarrow> [[c]]))"

text \<open>
  \<open>onError?.(...)\<close>: without a hook nothing happens, and the error and the input stay
  as they are; with a hook, the hook is invoked and says what it throws and what it
  leaves of them.
\<close>

fun unchanged :: "OnErrorOpts \<Rightarrow> HookResult" where
  "unchanged (OnErrorOpts error p input c type r) = HookResult None error input"

definition call_onError :: "Options \<Rightarrow> OnErrorOpts \<Rightarrow> event list \<times> HookResult" where
  "call_onError opts details =
     (case onError opts of
        None \<Rightarrow> ([], unchanged details)
      | Some hook \<Rightarrow> ([OnError details], hook details))"

datatype rawResult =
    Succeeded jsval string jsval  \<comment> \<open>\<open>{input, path, data}\<close>\<close>
  | Failed jsval string TRPCError  \<comment> \<open>\<open>{input, path, error}\<close>\<close>

text \<open>
  The callback of \<open>paths.map\<close>, applied to an index and its path, in two parts.
  \<open>start\<close> is the part that runs when \<open>map\<close> calls the callback: it reads the input
  and calls \<open>callProcedure\<close>, which is taken to return a promise (it is awaited) and not
  to throw at the call; so the procedures of all paths are called, in the order of the
  paths, before any of the callbacks continues. \<open>settle\<close> is the continuation, which runs when that promise has
  settled: it returns the success, or normalizes the error, reports it to the hook and
  returns the failure with the error and the input as the hook left them, unless the
  hook throws.
\<close>

datatype started = Started jsval string "thrown + jsval"
  \<comment> \<open>the input and the path of a call, and what \<open>callProcedure\<close> settles with\<close>

definition start ::
  "Imports \<Rightarrow> Options \<Rightarrow> jsval \<Rightarrow> ProcedureType \<Rightarrow> input_record \<Rightarrow> nat \<times> string \<Rightarrow> event \<times> started"
where
  "start env opts c type inputs = (\<lambda>(index, p).
     let input = get_index inputs index in
     (CallProcedure c p input type,
      Started input p (callProcedure env (router opts) c p input type)))"

fun settle ::
  "Imports \<Rightarrow> Options \<Rightarrow> jsval \<Rightarrow> ProcedureType \<Rightarrow> started \<Rightarrow> rawResult effect"
where
  "settle env opts c type (Started input p (Inr output)) = ([], Inr (Succeeded input p output))"
| "settle env opts c type (Started input p (Inl err)) =
     (let error = getErrorFromUnknown env err;
          (l, left) = call_onError opts (OnErrorOpts error (Some p) input c type (req opts))
      in case hook_throws left of
           None \<Rightarrow> (l, Inr (Failed (input_left left) p (error_left left)))
         | Some t \<Rightarrow> (l, Inl t))"

text \<open>
  \<open>Promise.all\<close> over the promises of the callbacks. Every callback was started and
  every continuation runs, whatever the others do; the promise is fulfilled with all
  results in the order of the paths, or rejected as soon as one callback throws. The
  calls are taken to settle in the order of the paths, so the rejection is that of the
  first callback that throws, and the invocations of all continuations are listed before
  those of the \<open>catch\<close> block.
\<close>

fun Promise_all :: "'a effect list \<Rightarrow> 'a list effect" where
  "Promise_all [] = ([], Inr [])"
| "Promise_all ((l, r) # rest) =
     (case Promise_all rest of
        (l', rs) \<Rightarrow>
          (l @ l',
           case r of
             Inl t \<Rightarrow> Inl t
           | Inr x \<Rightarrow> (case rs of Inl t \<Rightarrow> Inl t | Inr xs \<Rightarrow> Inr (x # xs))))"

subsection \<open>Lines 201-230: the envelopes\<close>

fun error_of :: "rawResult \<Rightarrow> TRPCError list" where
  "error_of (Failed _ _ error) = [error]"
| "error_of (Succeeded _ _ _) = []"

fun resultEnvelope :: "Options \<Rightarrow> jsval \<Rightarrow> ProcedureType \<Rightarrow> rawResult \<Rightarrow> TRPCResponse" where
  "resultEnvelope opts c type (Failed input p error) =
     ErrorResponse (getErrorShape (router opts) (ErrorShapeOpts error type (Some p) input c))"
| "resultEnvelope opts c type (Succeeded input p data) = ResultResponse data"

definition aggregate ::
  "Imports \<Rightarrow> Options \<Rightarrow> vars \<Rightarrow> ProcedureType \<Rightarrow> bool \<Rightarrow> rawResult list \<Rightarrow> HTTPResponse"
where
  "aggregate env opts v type batch rawResults =
     (let errors = concat (map error_of rawResults);
          resultEnvelopes = map (resultEnvelope opts (var_ctx v) type) rawResults;
          result = (if batch then Batch resultEnvelopes
                    else Single (case resultEnvelopes of e # _ \<Rightarrow> e | [] \<Rightarrow> NoResponse))
      in endResponse env opts v type result errors)"

subsection \<open>Lines 124-258: the \<open>try\<close>, the \<open>catch\<close> and the handler\<close>

text \<open>
  The \<open>try\<close> block up to \<open>const inputs = getInputs()\<close>: the request-level gates. It
  returns the variables as they are when it ends, the hooks it invoked, and the context
  and inputs or what was thrown.
\<close>

definition gates :: "Imports \<Rightarrow> Options \<Rightarrow> vars \<times> input_record effect" where
  "gates env opts =
     (let v0 = \<lparr>var_ctx = JUndefined, var_paths = None\<rparr>;
          type = procedure_type (method (req opts)) in
      if isBatchCall (req opts) \<and> \<not> batchingEnabled opts then
        (v0, [], Inl (ThrownError ''Batching is not enabled on the server''))
      else if type = Unknown \<or> type = Subscription then
        (v0, [], Inl (ThrownTRPCError (TRPCError METHOD_NOT_SUPPORTED
                        (Some (''Unexpected request method '' @ method (req opts))) None)))
      else
        (case getRawProcedureInputOrThrow env (req opts) of
           Inl t \<Rightarrow> (v0, [], Inl t)
         | Inr rawInput \<Rightarrow>
             (let v1 = v0\<lparr>var_paths :=
                         Some (if isBatchCall (req opts) then split_on CHR '','' (path opts)
                               else [path opts])\<rparr> in
              case createContext opts of
                Inl t \<Rightarrow> (v1, [CreateContext], Inl t)
              | Inr c \<Rightarrow>
                  (let v2 = v1\<lparr>var_ctx := c\<rparr> in
                   case getInputs (router opts) (isBatchCall (req opts)) rawInput of
                     (l, res) \<Rightarrow> (v2, CreateContext # l, res)))))"

definition try_block :: "Imports \<Rightarrow> Options \<Rightarrow> vars \<times> HTTPResponse effect" where
  "try_block env opts =
     (case gates env opts of
        (v, l, Inl t) \<Rightarrow> (v, l, Inl t)
      | (v, l, Inr inputs) \<Rightarrow>
          (let type = procedure_type (method (req opts));
               paths = (case var_paths v of Some ps \<Rightarrow> ps | None \<Rightarrow> []);
               calls = map (start env opts (var_ctx v) type inputs) (enumerate 0 paths)
           in case Promise_all (map (settle env opts (var_ctx v) type) (map snd calls)) of
                (l', Inl t) \<Rightarrow> (v, l @ map fst calls @ l', Inl t)
              | (l', Inr rawResults) \<Rightarrow>
                  (v, l @ map fst calls @ l',
                   Inr (aggregate env opts v type (isBatchCall (req opts)) rawResults))))"

text \<open>
  The \<open>catch\<close> block: the envelope is shaped from the error first, then the error is
  reported to the hook, then the response is built from the envelope and from the error
  as the hook left it. What the hook throws leaves the handler.
\<close>

definition catch_block ::
  "Imports \<Rightarrow> Options \<Rightarrow> vars \<Rightarrow> thrown \<Rightarrow> HTTPResponse effect"
where
  "catch_block env opts v err =
     (let type = procedure_type (method (req opts));
          error = getErrorFromUnknown env err;
          json = ErrorResponse
                   (getErrorShape (router opts) (ErrorShapeOpts error type None JUndefined (var_ctx v)));
          (l, left) = call_onError opts (OnErrorOpts error None JUndefined (var_ctx v) type (req opts))
      in case hook_throws left of
           Some t \<Rightarrow> (l, Inl t)
         | None \<Rightarrow> (l, Inr (endResponse env opts v type (Single json) [error_left left])))"

definition requestHandlerInner :: "Imports \<Rightarrow> Options \<Rightarrow> HTTPResponse effect" where
  "requestHandlerInner env opts =
     (if method (req opts) = ''HEAD'' then
        ([], Inr \<lparr>status = 204, body = None, headers = None\<rparr>)
      else
        (case try_block env opts of
           (v, l, Inr response) \<Rightarrow> (l, Inr response)
         | (v, l, Inl err) \<Rightarrow>
             (case catch_block env opts v err of
                (l', res) \<Rightarrow> (l @ l', res))))"

subsection \<open>Notions used in the statements\<close>

text \<open>An event is a call of a procedure.\<close>

fun is_CallProcedure :: "event \<Rightarrow> bool" where
  "is_CallProcedure (CallProcedure _ _ _ _) = True"
| "is_CallProcedure _ = False"

subsection \<open>A concrete router and concrete imports, on which the statements are run\<close>

text \<open>
  A router with one failing procedure (\<open>fail\<close>) whose other procedures echo their path
  and input, an identity transformer that rejects the string \<open>bad\<close>, a parser that
  knows four texts, and a printer that shows the kind of each envelope.
\<close>

definition ex_router :: Router where
  "ex_router =
     \<lparr>deserialize =
        (\<lambda>v. if v = JStr ''bad'' then Inl (ThrownError ''cannot deserialize'') else Inr v),
      getErrorShape =
        (\<lambda>args. case args of
           ErrorShapeOpts (TRPCError c m orig) t p input cx \<Rightarrow>
             JObj [(''message'', case m of Some s \<Rightarrow> JStr s | None \<Rightarrow> JUndefined),
                   (''path'', case p of Some s \<Rightarrow> JStr s | None \<Rightarrow> JUndefined)])\<rparr>"

fun ex_kind :: "TRPCResponse \<Rightarrow> string" where
  "ex_kind (ResultResponse _) = ''result''"
| "ex_kind (ErrorResponse _) = ''error''"
| "ex_kind NoResponse = ''undefined''"

fun ex_join :: "string list \<Rightarrow> string" where
  "ex_join [] = []"
| "ex_join [x] = x"
| "ex_join (x # y # ys) = x @ '','' @ ex_join (y # ys)"

fun ex_is_error :: "TRPCResponse \<Rightarrow> bool" where
  "ex_is_error (ErrorResponse _) = True"
| "ex_is_error _ = False"

definition ex_imports :: Imports where
  "ex_imports =
     \<lparr>callProcedure =
        (\<lambda>r c p input t.
           if p = ''fail'' then Inl (ThrownError ''boom'') else Inr (JArr [JStr p, input])),
      getErrorFromUnknown =
        (\<lambda>t. case t of
           ThrownTRPCError e \<Rightarrow> e
         | ThrownError m \<Rightarrow> TRPCError INTERNAL_SERVER_ERROR (Some m) (Some t)
         | ThrownValue _ \<Rightarrow> TRPCError INTERNAL_SERVER_ERROR None (Some t)),
      transformTRPCResponse = (\<lambda>r j. j),
      getHTTPStatusCode =
        (\<lambda>j. if list_ex ex_is_error (case j of Single e \<Rightarrow> [e] | Batch es \<Rightarrow> es)
              then 500 else 200),
      JSON_parse =
        (\<lambda>s. if s = ''1'' then Inr (JNum 1)
              else if s = ''null'' then Inr JNull
              else if s = ''{}'' then Inr (JObj [])
              else if s = ''[1,2]'' then Inr (JArr [JNum 1, JNum 2])
              else Inl (ThrownError ''SyntaxError'')),
      JSON_stringify =
        (\<lambda>j. case j of
           Single e \<Rightarrow> ex_kind e
         | Batch es \<Rightarrow> ''['' @ ex_join (map ex_kind es) @ '']'')\<rparr>"

definition ex_req :: "string \<Rightarrow> (string \<times> string) list \<Rightarrow> jsval \<Rightarrow> HTTPRequest" where
  "ex_req m q b = \<lparr>method = m, query = q, req_headers = [], req_body = b\<rparr>"

definition ex_opts :: "string \<Rightarrow> string \<Rightarrow> (string \<times> string) list \<Rightarrow> jsval \<Rightarrow> Options" where
  "ex_opts m p q b =
     \<lparr>createContext = Inr (JStr ''ctx''), onError = None, router = ex_router,
      req = ex_req m q b, batching = None, responseMeta = None, path = p\<rparr>"





section \<open>Properties\<close>

subsection \<open>Auxiliary facts\<close>

lemma call_onError_no_call:
  "ev \<in> set (fst (call_onError opts details)) \<Longrightarrow> \<not> is_CallProcedure ev"
  by (auto simp: call_onError_def split: option.splits)

lemma catch_block_result:
  "catch_block env opts v t =
     (let type = procedure_type (method (req opts));
          error = getErrorFromUnknown env t;
          report = call_onError opts (OnErrorOpts error None JUndefined (var_ctx v) type (req opts))
      in (fst report,
          case hook_throws (snd report) of
            None \<Rightarrow>
              Inr (endResponse env opts v type
                     (Single (ErrorResponse (getErrorShape (router opts)
                        (ErrorShapeOpts error type None JUndefined (var_ctx v)))))
                     [error_left (snd report)])
          | Some t' \<Rightarrow> Inl t'))"
  by (simp add: catch_block_def Let_def split: prod.splits option.splits)

lemma handler_gates_fail:
  assumes "method (req opts) \<noteq> ''HEAD''" and "gates env opts = (v, l, Inl t)"
  shows "requestHandlerInner env opts =
           (l @ fst (catch_block env opts v t), snd (catch_block env opts v t))"
  using assms by (simp add: requestHandlerInner_def try_block_def split: prod.splits)

lemma query_get_has: "query_get q name = Some raw \<Longrightarrow> query_has q name"
  by (auto simp: query_get_def query_has_def dest: map_of_SomeD intro: rev_image_eqI)

lemma gates_method:
  assumes "\<not> (isBatchCall (req opts) \<and> \<not> batchingEnabled opts)"
    and "procedure_type (method (req opts)) \<in> {Unknown, Subscription}"
  shows "gates env opts =
     (\<lparr>var_ctx = JUndefined, var_paths = None\<rparr>, [],
      Inl (ThrownTRPCError (TRPCError METHOD_NOT_SUPPORTED
             (Some (''Unexpected request method '' @ method (req opts))) None)))"
  using assms by (auto simp: gates_def Let_def)

lemma deserializeInputValue_no_call:
  "ev \<in> set (fst (deserializeInputValue r v)) \<Longrightarrow> \<not> is_CallProcedure ev"
  by (auto simp: deserializeInputValue_def split: if_splits)

lemma getInputs_loop_no_call:
  "ev \<in> set (fst (getInputs_loop r kvs input)) \<Longrightarrow> \<not> is_CallProcedure ev"
proof (induction kvs arbitrary: input)
  case Nil
  then show ?case by simp
next
  case (Cons kv kvs)
  obtain k v where kv: "kv = (k, v)" by (cases kv)
  obtain l res where d: "deserializeInputValue r v = (l, res)" by (cases "deserializeInputValue r v")
  show ?case
  proof (cases res)
    case (Inl e)
    with Cons.prems kv d deserializeInputValue_no_call [of ev r v] show ?thesis by simp
  next
    case (Inr w)
    obtain l' res' where rec: "getInputs_loop r kvs (set_property input k w) = (l', res')"
      by (cases "getInputs_loop r kvs (set_property input k w)")
    with Cons.prems kv d Inr have "ev \<in> set l \<or> ev \<in> set l'" by simp
    then show ?thesis
      using deserializeInputValue_no_call [of ev r v] d
        Cons.IH [of "set_property input k w"] rec by auto
  qed
qed

lemma getInputs_no_call:
  "ev \<in> set (fst (getInputs r b rawInput)) \<Longrightarrow> \<not> is_CallProcedure ev"
  using deserializeInputValue_no_call [of ev r rawInput]
    getInputs_loop_no_call [of ev r "entries rawInput"]
  by (auto simp: getInputs_def split: if_splits prod.splits sum.splits)

lemma gates_no_call:
  assumes "gates env opts = (v, l, res)" and "ev \<in> set l"
  shows "\<not> is_CallProcedure ev"
proof -
  have "ev = CreateContext \<or>
        (\<exists>raw. ev \<in> set (fst (getInputs (router opts) (isBatchCall (req opts)) raw)))"
    using assms
    by (auto simp: gates_def Let_def split: if_splits sum.splits prod.splits)
       (metis fst_conv)+
  then show ?thesis
    using getInputs_no_call by auto
qed

lemma catch_block_no_call:
  "ev \<in> set (fst (catch_block env opts v t)) \<Longrightarrow> \<not> is_CallProcedure ev"
  using call_onError_no_call by (simp add: catch_block_result Let_def)

lemma handler_gates_fail_no_call:
  assumes "method (req opts) \<noteq> ''HEAD''" and "gates env opts = (v, l, Inl t)"
  shows "\<forall>ev \<in> set (fst (requestHandlerInner env opts)). \<not> is_CallProcedure ev"
  using handler_gates_fail [OF assms] gates_no_call [OF assms(2)] catch_block_no_call [of _ env opts v t]
  by auto

lemma handler_gates_fail_result:
  assumes "method (req opts) \<noteq> ''HEAD''" and "gates env opts = (v, l, Inl t)"
  shows "requestHandlerInner env opts =
     (let type = procedure_type (method (req opts));
          error = getErrorFromUnknown env t;
          report = call_onError opts (OnErrorOpts error None JUndefined (var_ctx v) type (req opts))
      in (l @ fst report,
          case hook_throws (snd report) of
            None \<Rightarrow>
              Inr (endResponse env opts v type
                     (Single (ErrorResponse (getErrorShape (router opts)
                        (ErrorShapeOpts error type None JUndefined (var_ctx v)))))
                     [error_left (snd report)])
          | Some t' \<Rightarrow> Inl t'))"
  unfolding handler_gates_fail [OF assms] catch_block_result by (simp add: Let_def)



lemma procedure_type_HEAD: "procedure_type ''HEAD'' = Unknown"
  by (simp add: procedure_type_def HTTP_METHOD_PROCEDURE_TYPE_MAP_def Object_prototype_def)

lemma gates_passes:
  assumes "\<not> (isBatchCall (req opts) \<and> \<not> batchingEnabled opts)"
    and "procedure_type (method (req opts)) \<notin> {Unknown, Subscription}"
    and "getRawProcedureInputOrThrow env (req opts) = Inr rawInput"
    and "createContext opts = Inr c"
    and "getInputs (router opts) (isBatchCall (req opts)) rawInput = (l0, Inr inputs)"
  shows "gates env opts =
     (\<lparr>var_ctx = c,
       var_paths = Some (if isBatchCall (req opts) then split_on CHR '','' (path opts)
                         else [path opts])\<rparr>,
      CreateContext # l0, Inr inputs)"
  using assms by (auto simp: gates_def Let_def)

lemma gates_pass_paths:
  assumes "gates env opts = (v, l, Inr inputs)"
  shows "var_paths v =
           Some (if isBatchCall (req opts) then split_on CHR '','' (path opts) else [path opts])"
  using assms
  by (auto simp: gates_def Let_def split: if_splits sum.splits prod.splits)

lemma gates_pass_inputs:
  assumes "gates env opts = (v, l, Inr inputs)"
  shows "\<exists>rawInput l0. getRawProcedureInputOrThrow env (req opts) = Inr rawInput
     \<and> createContext opts = Inr (var_ctx v)
     \<and> getInputs (router opts) (isBatchCall (req opts)) rawInput = (l0, Inr inputs)
     \<and> l = CreateContext # l0"
  using assms
  by (auto simp: gates_def Let_def split: if_splits sum.splits prod.splits)

lemma gates_pass_not_HEAD:
  assumes "gates env opts = (v, l, Inr inputs)"
  shows "method (req opts) \<noteq> ''HEAD''"
proof
  assume "method (req opts) = ''HEAD''"
  then have "procedure_type (method (req opts)) = Unknown"
    by (simp add: procedure_type_HEAD)
  then show False
    using assms by (auto simp: gates_def Let_def split: if_splits)
qed


lemma Promise_all_events: "fst (Promise_all ts) = concat (map fst ts)"
proof (induction ts)
  case Nil
  then show ?case by simp
next
  case (Cons t ts)
  obtain l r where t: "t = (l, r)" by (cases t)
  with Cons.IH show ?case by (auto split: prod.splits)
qed








lemma start_event:
  "fst (start env opts c type inputs (i, p)) = CallProcedure c p (get_index inputs i) type"
  by (simp add: start_def Let_def)

lemma try_block_paths:
  assumes "gates env opts = (v, l, Inr inputs)" and "var_paths v = Some paths"
  shows "try_block env opts =
     (let type = procedure_type (method (req opts));
          calls = map (start env opts (var_ctx v) type inputs) (enumerate 0 paths);
          settled = map (\<lambda>x. settle env opts (var_ctx v) type (snd x)) calls
      in (v, l @ map fst calls @ concat (map fst settled),
          case snd (Promise_all settled) of
            Inl t \<Rightarrow> Inl t
          | Inr rawResults \<Rightarrow> Inr (aggregate env opts v type (isBatchCall (req opts)) rawResults)))"
proof -
  let ?type = "procedure_type (method (req opts))"
  let ?settled = "map (\<lambda>x. settle env opts (var_ctx v) ?type
                             (snd (start env opts (var_ctx v) ?type inputs x)))
                    (enumerate 0 paths)"
  obtain l' res where pa: "Promise_all ?settled = (l', res)"
    by (cases "Promise_all ?settled")
  have l': "l' = concat (map fst ?settled)"
    using Promise_all_events [of ?settled] pa by simp
  show ?thesis
    using pa l'
    by (simp add: try_block_def assms Let_def comp_def split: sum.splits)
qed

lemma try_block_pass:
  assumes "gates env opts = (v, l, Inr inputs)"
  shows "try_block env opts =
     (let type = procedure_type (method (req opts));
          paths = (if isBatchCall (req opts) then split_on CHR '','' (path opts) else [path opts]);
          calls = map (start env opts (var_ctx v) type inputs) (enumerate 0 paths);
          settled = map (\<lambda>x. settle env opts (var_ctx v) type (snd x)) calls
      in (v, l @ map fst calls @ concat (map fst settled),
          case snd (Promise_all settled) of
            Inl t \<Rightarrow> Inl t
          | Inr rawResults \<Rightarrow> Inr (aggregate env opts v type (isBatchCall (req opts)) rawResults)))"
  using try_block_paths [OF assms gates_pass_paths [OF assms]] unfolding Let_def .

lemma handler_pass:
  assumes "gates env opts = (v, l, Inr inputs)"
  shows "requestHandlerInner env opts =
     (let type = procedure_type (method (req opts));
          paths = (if isBatchCall (req opts) then split_on CHR '','' (path opts) else [path opts]);
          calls = map (start env opts (var_ctx v) type inputs) (enumerate 0 paths);
          settled = map (\<lambda>x. settle env opts (var_ctx v) type (snd x)) calls
      in case snd (Promise_all settled) of
           Inr rawResults \<Rightarrow>
             (l @ map fst calls @ concat (map fst settled),
              Inr (aggregate env opts v type (isBatchCall (req opts)) rawResults))
         | Inl t \<Rightarrow>
             (l @ map fst calls @ concat (map fst settled) @ fst (catch_block env opts v t),
              snd (catch_block env opts v t)))"
  using gates_pass_not_HEAD [OF assms]
  unfolding requestHandlerInner_def try_block_pass [OF assms] Let_def
  by (simp split: sum.splits prod.splits)


lemma handler_events:
  assumes "gates env opts = (v, l, Inr inputs)"
    and "paths = (if isBatchCall (req opts) then split_on CHR '','' (path opts) else [path opts])"
  shows "\<exists>l''. fst (requestHandlerInner env opts) =
     l @ map (\<lambda>x. fst (start env opts (var_ctx v) (procedure_type (method (req opts))) inputs x))
           (enumerate 0 paths)
       @ concat (map (\<lambda>x. fst (settle env opts (var_ctx v) (procedure_type (method (req opts)))
                                  (snd (start env opts (var_ctx v)
                                          (procedure_type (method (req opts))) inputs x))))
                   (enumerate 0 paths))
       @ l''"
  unfolding handler_pass [OF assms(1)] Let_def assms(2) [symmetric]
  by (simp add: comp_def split: sum.splits)





lemma handler_calls:
  assumes "gates env opts = (v, l, Inr inputs)"
    and "paths = (if isBatchCall (req opts) then split_on CHR '','' (path opts) else [path opts])"
    and "i < length paths"
  shows "CallProcedure (var_ctx v) (paths ! i) (get_index inputs i)
           (procedure_type (method (req opts))) \<in> set (fst (requestHandlerInner env opts))"
proof -
  let ?start = "start env opts (var_ctx v) (procedure_type (method (req opts))) inputs"
  have "enumerate 0 paths ! i = (i, paths ! i)"
    using assms(3) by (simp add: nth_enumerate_eq)
  then have "(i, paths ! i) \<in> set (enumerate 0 paths)"
    using assms(3) by (metis length_enumerate nth_mem)
  then have "fst (?start (i, paths ! i)) \<in> set (map (\<lambda>x. fst (?start x)) (enumerate 0 paths))"
    by (metis (no_types, lifting) image_eqI list.set_map)
  then show ?thesis
    using handler_events [OF assms(1,2)] unfolding start_event by auto
qed



lemma own_set_property:
  "fst ` set (own (set_property input k v)) =
     (if k = ''__proto__'' then fst ` set (own input) else insert k (fst ` set (own input)))"
  by (simp add: set_property_def dom_update)

lemma proto_set_property:
  "k \<noteq> ''__proto__'' \<Longrightarrow> proto (set_property input k v) = proto input"
  by (simp add: set_property_def)

lemma getInputs_loop_result:
  assumes "getInputs_loop r kvs input = (l, Inr inputs)"
  shows "l = map Deserialize (filter (\<lambda>x. x \<noteq> JUndefined) (map snd kvs))
     \<and> fst ` set (own inputs) = fst ` set (own input) \<union> (fst ` set kvs - {''__proto__''})
     \<and> (''__proto__'' \<notin> fst ` set kvs \<longrightarrow> proto inputs = proto input)"
  using assms
proof (induction kvs arbitrary: input l)
  case Nil
  then show ?case by simp
next
  case (Cons kv kvs)
  obtain k x where kv: "kv = (k, x)" by (cases kv)
  obtain l1 res where d: "deserializeInputValue r x = (l1, res)"
    by (cases "deserializeInputValue r x")
  from Cons.prems kv d obtain w where w: "res = Inr w"
    by (cases res) auto
  obtain l2 res2 where rec: "getInputs_loop r kvs (set_property input k w) = (l2, res2)"
    by (cases "getInputs_loop r kvs (set_property input k w)")
  from Cons.prems kv d w rec have l: "l = l1 @ l2" and res2: "res2 = Inr inputs"
    by simp_all
  have l1: "l1 = (if x \<noteq> JUndefined then [Deserialize x] else [])"
    using d by (auto simp: deserializeInputValue_def split: if_splits)
  note ih = Cons.IH [OF rec [unfolded res2]]
  show ?case
    using ih l l1 kv own_set_property [of input k w] proto_set_property [of k input w]
    by auto
qed

lemma getInputs_loop_succeeds:
  assumes "\<forall>x \<in> set kvs. snd x \<noteq> JUndefined \<longrightarrow> (\<exists>w. deserialize r (snd x) = Inr w)"
  shows "\<exists>l inputs. getInputs_loop r kvs input = (l, Inr inputs)"
  using assms
proof (induction kvs arbitrary: input)
  case Nil
  then show ?case by simp
next
  case (Cons kv kvs)
  obtain k x where kv: "kv = (k, x)" by (cases kv)
  have "\<exists>w. snd (deserializeInputValue r x) = Inr w"
  proof (cases "x = JUndefined")
    case True
    then show ?thesis by (simp add: deserializeInputValue_def)
  next
    case False
    with Cons.prems kv obtain w where "deserialize r x = Inr w" by auto
    with False show ?thesis by (simp add: deserializeInputValue_def)
  qed
  then obtain w where w: "snd (deserializeInputValue r x) = Inr w" ..
  then obtain l1 where d: "deserializeInputValue r x = (l1, Inr w)"
    by (metis prod.collapse)
  obtain l2 inputs where "getInputs_loop r kvs (set_property input k w) = (l2, Inr inputs)"
    using Cons.IH [of "set_property input k w"] Cons.prems by auto
  with d kv show ?case by simp
qed

lemma shape_check:
  "(eq_null rawInput \<or> typeof rawInput \<noteq> ''object'' \<or> isArray rawInput)
     \<longleftrightarrow> (\<forall>kvs. rawInput \<noteq> JObj kvs)"
  by (cases rawInput) simp_all

lemma get_index_absent:
  assumes "ToString i \<notin> fst ` set (own inputs)" and "proto inputs = None"
  shows "get_index inputs i = JUndefined"
proof -
  have "map_of (own inputs) (ToString i) = None"
    using assms(1) by (simp add: map_of_eq_None_iff)
  with assms(2) show ?thesis by (simp add: get_index_def)
qed

lemma map_of_own_set_property:
  "k \<noteq> ''__proto__'' \<Longrightarrow>
   map_of (own (set_property input k v)) = (map_of (own input))(k \<mapsto> v)"
  by (simp add: set_property_def update_conv')

lemma map_of_own_set_property_other:
  "k' \<noteq> k \<Longrightarrow> map_of (own (set_property input k v)) k' = map_of (own input) k'"
  by (simp add: set_property_def update_conv')

lemma getInputs_loop_keeps:
  assumes "getInputs_loop r kvs input = (l, Inr inputs)" and "k \<notin> fst ` set kvs"
  shows "map_of (own inputs) k = map_of (own input) k"
  using assms
proof (induction kvs arbitrary: input l)
  case Nil
  then show ?case by simp
next
  case (Cons kv kvs)
  obtain k' x where kv: "kv = (k', x)" by (cases kv)
  obtain l1 res where d: "deserializeInputValue r x = (l1, res)"
    by (cases "deserializeInputValue r x")
  from Cons.prems(1) kv d obtain w where w: "res = Inr w"
    by (cases res) auto
  obtain l2 res2 where rec: "getInputs_loop r kvs (set_property input k' w) = (l2, res2)"
    by (cases "getInputs_loop r kvs (set_property input k' w)")
  from Cons.prems(1) kv d w rec have res2: "res2 = Inr inputs"
    by simp
  have "k' \<noteq> k" and "k \<notin> fst ` set kvs"
    using Cons.prems(2) kv by auto
  then show ?case
    using Cons.IH [OF rec [unfolded res2]] map_of_own_set_property_other [of k k' input w]
    by simp
qed

lemma getInputs_loop_value:
  assumes "getInputs_loop r kvs input = (l, Inr inputs)"
    and "distinct (map fst kvs)"
    and "(k, x) \<in> set kvs"
    and "k \<noteq> ''__proto__''"
  shows "\<exists>w. snd (deserializeInputValue r x) = Inr w \<and> map_of (own inputs) k = Some w"
  using assms(1-3)
proof (induction kvs arbitrary: input l)
  case Nil
  then show ?case by simp
next
  case (Cons kv kvs)
  obtain k' x' where kv: "kv = (k', x')" by (cases kv)
  obtain l1 res where d: "deserializeInputValue r x' = (l1, res)"
    by (cases "deserializeInputValue r x'")
  from Cons.prems(1) kv d obtain w where w: "res = Inr w"
    by (cases res) auto
  obtain l2 res2 where rec: "getInputs_loop r kvs (set_property input k' w) = (l2, res2)"
    by (cases "getInputs_loop r kvs (set_property input k' w)")
  from Cons.prems(1) kv d w rec have res2: "res2 = Inr inputs"
    by simp
  note rec' = rec [unfolded res2]
  show ?case
  proof (cases "(k, x) = (k', x')")
    case True
    then have "k \<notin> fst ` set kvs"
      using Cons.prems(2) kv by auto
    then have "map_of (own inputs) k = map_of (own (set_property input k' w)) k"
      using getInputs_loop_keeps [OF rec'] by simp
    also have "\<dots> = Some w"
      using True assms(4) map_of_own_set_property [of k' input w] by simp
    finally have m: "map_of (own inputs) k = Some w" .
    with True d w show ?thesis by simp
  next
    case False
    then have "(k, x) \<in> set kvs"
      using Cons.prems(3) kv by auto
    moreover have "distinct (map fst kvs)"
      using Cons.prems(2) by simp
    ultimately show ?thesis
      using Cons.IH [OF rec'] by simp
  qed
qed

lemma ToString_digits: "set (ToString n) \<subseteq> set ''0123456789''"
proof (induction n rule: ToString.induct)
  case (1 n)
  have d: "''0123456789'' ! m \<in> set ''0123456789''" if "m < 10" for m
    using that nth_mem [of m "''0123456789''"] by simp
  show ?case
  proof (cases "n < 10")
    case True
    then show ?thesis
      using d [of n] by (subst ToString.simps) simp
  next
    case False
    then show ?thesis
      using "1.IH" d [of "n mod 10"] by (subst ToString.simps) simp
  qed
qed

lemma ToString_not_proto: "ToString n \<noteq> ''__proto__''"
proof
  assume "ToString n = ''__proto__''"
  then have "CHR ''_'' \<in> set (ToString n)" by simp
  then show False using ToString_digits [of n] by auto
qed

lemma get_index_own:
  "map_of (own inputs) (ToString i) = Some w \<Longrightarrow> get_index inputs i = w"
  by (simp add: get_index_def)

lemma get_index_no_proto:
  assumes "proto inputs = None"
  shows "get_index inputs i =
           (case map_of (own inputs) (ToString i) of Some w \<Rightarrow> w | None \<Rightarrow> JUndefined)"
  using assms by (simp add: get_index_def split: option.splits)

lemma deserializeInputValue_result:
  "snd (deserializeInputValue r x) = Inr w \<longleftrightarrow>
     (x = JUndefined \<and> w = JUndefined) \<or> (x \<noteq> JUndefined \<and> deserialize r x = Inr w)"
  by (auto simp: deserializeInputValue_def)

lemma getInputs_loop_fails:
  assumes "(k, x) \<in> set kvs" and "x \<noteq> JUndefined" and "deserialize r x = Inl t"
  shows "\<exists>l t'. getInputs_loop r kvs input = (l, Inl t')"
  using assms(1)
proof (induction kvs arbitrary: input)
  case Nil
  then show ?case by simp
next
  case (Cons kv kvs)
  obtain k' x' where kv: "kv = (k', x')" by (cases kv)
  obtain l1 res where d: "deserializeInputValue r x' = (l1, res)"
    by (cases "deserializeInputValue r x'")
  show ?case
  proof (cases res)
    case (Inl e)
    with kv d show ?thesis by simp
  next
    case (Inr w)
    have "(k, x) \<noteq> (k', x')"
    proof
      assume "(k, x) = (k', x')"
      with d Inr assms(2,3) show False by (simp add: deserializeInputValue_def)
    qed
    with Cons.prems kv have "(k, x) \<in> set kvs" by auto
    then obtain l2 t' where "getInputs_loop r kvs (set_property input k' w) = (l2, Inl t')"
      using Cons.IH by blast
    with kv d Inr show ?thesis by simp
  qed
qed


lemma proto_foldl_set_header:
  "''__proto__'' \<notin> fst ` set h0 \<Longrightarrow>
   ''__proto__'' \<notin> fst ` set (foldl (\<lambda>h (key, value). set_header h key value) h0 hs)"
proof (induction hs arbitrary: h0)
  case Nil
  then show ?case by simp
next
  case (Cons kv hs)
  obtain k v where kv: "kv = (k, v)" by (cases kv)
  have "''__proto__'' \<notin> fst ` set (set_header h0 k v)"
    using Cons.prems by (simp add: set_header_def dom_update)
  then show ?case
    using Cons.IH [of "set_header h0 k v"] kv by simp
qed



lemma endResponse_body:
  "body (endResponse env opts v type json errors) =
     Some (JSON_stringify env (transformTRPCResponse env (router opts) json))"
  by (simp add: endResponse_def Let_def)


subsection \<open>The \<open>HEAD\<close> request\<close>

text \<open>
  C9. A \<open>HEAD\<close> request is answered with status 204, no body and no headers, whatever
  the options and the router are; no hook is invoked on the way: not the context
  factory, not a procedure, nothing else.
\<close>

theorem head_request:
  "method (req opts) = ''HEAD'' \<Longrightarrow>
   requestHandlerInner env opts = ([], Inr \<lparr>status = 204, body = None, headers = None\<rparr>)"
  by (simp add: requestHandlerInner_def)

theorem head_request_witness:
  "method (req (ex_opts ''HEAD'' ''greeting'' [] JUndefined)) = ''HEAD''
   \<and> requestHandlerInner ex_imports (ex_opts ''HEAD'' ''greeting'' [] JUndefined) =
       ([], Inr \<lparr>status = 204, body = None, headers = None\<rparr>)"
  using head_request [of "ex_opts ''HEAD'' ''greeting'' [] JUndefined" ex_imports]
  by (simp add: ex_opts_def ex_req_def)

subsection \<open>The raw input\<close>

text \<open>
  C7. \<open>getRawProcedureInputOrThrow\<close>: a \<open>GET\<close> without an \<open>input\<close> parameter has the
  raw input \<open>undefined\<close>; a \<open>GET\<close> with the parameter has its value parsed as JSON; any
  other method has a string body parsed as JSON and any other body passed through; and
  whatever the function throws is a \<open>PARSE_ERROR\<close> that holds the parser's error as
  \<open>originalError\<close>.
\<close>

theorem raw_input:
  "(method r = ''GET'' \<and> \<not> query_has (query r) ''input'' \<longrightarrow>
      getRawProcedureInputOrThrow env r = Inr JUndefined)
   \<and> (\<forall>raw. method r = ''GET'' \<and> query_get (query r) ''input'' = Some raw \<longrightarrow>
        getRawProcedureInputOrThrow env r =
          (case JSON_parse env raw of
             Inr v \<Rightarrow> Inr v
           | Inl e \<Rightarrow> Inl (ThrownTRPCError (TRPCError PARSE_ERROR None (Some e)))))
   \<and> (\<forall>s. method r \<noteq> ''GET'' \<and> req_body r = JStr s \<longrightarrow>
        getRawProcedureInputOrThrow env r =
          (case JSON_parse env s of
             Inr v \<Rightarrow> Inr v
           | Inl e \<Rightarrow> Inl (ThrownTRPCError (TRPCError PARSE_ERROR None (Some e)))))
   \<and> (method r \<noteq> ''GET'' \<and> typeof (req_body r) \<noteq> ''string'' \<longrightarrow>
        getRawProcedureInputOrThrow env r = Inr (req_body r))
   \<and> (\<forall>t. getRawProcedureInputOrThrow env r = Inl t \<longrightarrow>
        (\<exists>e. t = ThrownTRPCError (TRPCError PARSE_ERROR None (Some e))))"
proof (intro conjI allI impI)
  show "getRawProcedureInputOrThrow env r = Inr JUndefined"
    if "method r = ''GET'' \<and> \<not> query_has (query r) ''input''"
    using that by (simp add: getRawProcedureInputOrThrow_def)
next
  fix raw
  assume "method r = ''GET'' \<and> query_get (query r) ''input'' = Some raw"
  then show "getRawProcedureInputOrThrow env r =
          (case JSON_parse env raw of
             Inr v \<Rightarrow> Inr v
           | Inl e \<Rightarrow> Inl (ThrownTRPCError (TRPCError PARSE_ERROR None (Some e))))"
    using query_get_has [of "query r" "''input''" raw]
    by (simp add: getRawProcedureInputOrThrow_def split: sum.splits)
next
  fix s
  assume "method r \<noteq> ''GET'' \<and> req_body r = JStr s"
  then show "getRawProcedureInputOrThrow env r =
          (case JSON_parse env s of
             Inr v \<Rightarrow> Inr v
           | Inl e \<Rightarrow> Inl (ThrownTRPCError (TRPCError PARSE_ERROR None (Some e))))"
    by (simp add: getRawProcedureInputOrThrow_def split: sum.splits)
next
  assume "method r \<noteq> ''GET'' \<and> typeof (req_body r) \<noteq> ''string''"
  then show "getRawProcedureInputOrThrow env r = Inr (req_body r)"
    by (cases "req_body r") (simp_all add: getRawProcedureInputOrThrow_def)
next
  fix t
  assume "getRawProcedureInputOrThrow env r = Inl t"
  then show "\<exists>e. t = ThrownTRPCError (TRPCError PARSE_ERROR None (Some e))"
    by (auto simp: getRawProcedureInputOrThrow_def split: sum.splits)
qed

theorem raw_input_witness:
  "getRawProcedureInputOrThrow ex_imports (ex_req ''GET'' [] JUndefined) = Inr JUndefined
   \<and> getRawProcedureInputOrThrow ex_imports (ex_req ''GET'' [(''input'', ''1'')] JUndefined) =
       Inr (JNum 1)
   \<and> getRawProcedureInputOrThrow ex_imports (ex_req ''POST'' [] (JStr ''[1,2]'')) =
       Inr (JArr [JNum 1, JNum 2])
   \<and> getRawProcedureInputOrThrow ex_imports (ex_req ''POST'' [] (JObj [(''0'', JNum 7)])) =
       Inr (JObj [(''0'', JNum 7)])
   \<and> getRawProcedureInputOrThrow ex_imports (ex_req ''POST'' [] (JStr ''not-json'')) =
       Inl (ThrownTRPCError (TRPCError PARSE_ERROR None (Some (ThrownError ''SyntaxError''))))
   \<and> (\<exists>e. ThrownTRPCError (TRPCError PARSE_ERROR None (Some (ThrownError ''SyntaxError''))) =
            ThrownTRPCError (TRPCError PARSE_ERROR None (Some e)))"
  using raw_input [of "ex_req ''GET'' [] JUndefined" ex_imports]
    raw_input [of "ex_req ''GET'' [(''input'', ''1'')] JUndefined" ex_imports]
    raw_input [of "ex_req ''POST'' [] (JStr ''[1,2]'')" ex_imports]
    raw_input [of "ex_req ''POST'' [] (JObj [(''0'', JNum 7)])" ex_imports]
    raw_input [of "ex_req ''POST'' [] (JStr ''not-json'')" ex_imports]
  apply (simp add: ex_req_def query_has_def query_get_def)
  apply (simp add: ex_imports_def)
  done

subsection \<open>The method gate\<close>

text \<open>
  The table maps \<open>GET\<close> to query, \<open>POST\<close> to mutation and \<open>PATCH\<close> to subscription; a
  method that is none of the three and names no member of \<open>Object.prototype\<close> has the type
  \<open>unknown\<close>, and a method that names such a member has that member for its type. A
  request of type \<open>unknown\<close> or \<open>subscription\<close> that reaches the method gate (it is not a
  \<open>HEAD\<close> request, and it is not a batch request to a handler with batching disabled,
  which the gate before rejects) is rejected with the \<open>METHOD_NOT_SUPPORTED\<close> error
  \<open>Unexpected request method ...\<close>: no procedure is called, the error is reported to the
  \<open>onError\<close> hook, and the response is the single top-level error envelope of that error
  unless the hook throws.
\<close>

lemma method_gate:
  "procedure_type ''GET'' = Query
   \<and> procedure_type ''POST'' = Mutation
   \<and> procedure_type ''PATCH'' = Subscription
   \<and> (\<forall>m. m \<notin> {''GET'', ''POST'', ''PATCH''} \<and> m \<notin> set Object_prototype \<longrightarrow>
         procedure_type m = Unknown)
   \<and> (\<forall>m. m \<in> set Object_prototype \<longrightarrow> procedure_type m = Inherited m)
   \<and> (method (req opts) \<noteq> ''HEAD''
        \<and> \<not> (isBatchCall (req opts) \<and> \<not> batchingEnabled opts)
        \<and> procedure_type (method (req opts)) \<in> {Unknown, Subscription} \<longrightarrow>
       (let type = procedure_type (method (req opts));
            v = \<lparr>var_ctx = JUndefined, var_paths = None\<rparr>;
            error = getErrorFromUnknown env
                      (ThrownTRPCError (TRPCError METHOD_NOT_SUPPORTED
                         (Some (''Unexpected request method '' @ method (req opts))) None));
            report = call_onError opts (OnErrorOpts error None JUndefined JUndefined type (req opts))
        in gates env opts =
             (v, [],
              Inl (ThrownTRPCError (TRPCError METHOD_NOT_SUPPORTED
                     (Some (''Unexpected request method '' @ method (req opts))) None)))
           \<and> (\<forall>ev \<in> set (fst (requestHandlerInner env opts)). \<not> is_CallProcedure ev)
           \<and> requestHandlerInner env opts =
                (fst report,
                 case hook_throws (snd report) of
                   None \<Rightarrow>
                     Inr (endResponse env opts v type
                            (Single (ErrorResponse (getErrorShape (router opts)
                               (ErrorShapeOpts error type None JUndefined JUndefined))))
                            [error_left (snd report)])
                 | Some t' \<Rightarrow> Inl t')))"
proof (intro conjI allI impI)
  show "procedure_type ''GET'' = Query" "procedure_type ''POST'' = Mutation"
    "procedure_type ''PATCH'' = Subscription"
    by (simp_all add: procedure_type_def HTTP_METHOD_PROCEDURE_TYPE_MAP_def)
next
  fix m :: string
  assume "m \<notin> {''GET'', ''POST'', ''PATCH''} \<and> m \<notin> set Object_prototype"
  then show "procedure_type m = Unknown"
    by (simp add: procedure_type_def HTTP_METHOD_PROCEDURE_TYPE_MAP_def)
next
  fix m :: string
  assume "m \<in> set Object_prototype"
  then show "procedure_type m = Inherited m"
    by (auto simp: procedure_type_def HTTP_METHOD_PROCEDURE_TYPE_MAP_def Object_prototype_def)
next
  assume a: "method (req opts) \<noteq> ''HEAD''
        \<and> \<not> (isBatchCall (req opts) \<and> \<not> batchingEnabled opts)
        \<and> procedure_type (method (req opts)) \<in> {Unknown, Subscription}"
  let ?t = "ThrownTRPCError (TRPCError METHOD_NOT_SUPPORTED
              (Some (''Unexpected request method '' @ method (req opts))) None)"
  let ?v = "\<lparr>var_ctx = JUndefined, var_paths = None\<rparr>"
  from a have m: "method (req opts) \<noteq> ''HEAD''" by blast
  from a have g: "gates env opts = (?v, [], Inl ?t)"
    using gates_method [of opts env] by blast
  have n: "\<forall>ev \<in> set (fst (requestHandlerInner env opts)). \<not> is_CallProcedure ev"
    using handler_gates_fail_no_call [OF m g] .
  show "let type = procedure_type (method (req opts));
            v = ?v;
            error = getErrorFromUnknown env ?t;
            report = call_onError opts (OnErrorOpts error None JUndefined JUndefined type (req opts))
        in gates env opts = (v, [], Inl ?t)
           \<and> (\<forall>ev \<in> set (fst (requestHandlerInner env opts)). \<not> is_CallProcedure ev)
           \<and> requestHandlerInner env opts =
                (fst report,
                 case hook_throws (snd report) of
                   None \<Rightarrow>
                     Inr (endResponse env opts v type
                            (Single (ErrorResponse (getErrorShape (router opts)
                               (ErrorShapeOpts error type None JUndefined JUndefined))))
                            [error_left (snd report)])
                 | Some t' \<Rightarrow> Inl t')"
    unfolding Let_def
  proof (intro conjI)
    show "gates env opts = (?v, [], Inl ?t)" by (rule g)
    show "\<forall>ev \<in> set (fst (requestHandlerInner env opts)). \<not> is_CallProcedure ev" by (rule n)
  qed (use handler_gates_fail_result [OF m g, unfolded Let_def] in \<open>simp cong: option.case_cong\<close>)
qed

text \<open>
  C8. The classifier does not map every other method to \<open>unknown\<close>, and the handler does
  not reject every request it should. The method \<open>constructor\<close> is found in the table,
  where \<open>Object.prototype\<close> puts it: the type is neither \<open>'unknown'\<close> nor
  \<open>'subscription'\<close>, so the request passes the method gate, the context is created and
  the procedure is called with that type. The method \<open>PUT\<close>, which the table does not
  have either, is rejected: no procedure is called, and the response is an error
  envelope.
\<close>

theorem method_gate_inherited:
  "procedure_type ''constructor'' = Inherited ''constructor''
   \<and> gates ex_imports (ex_opts ''constructor'' ''a'' [] JUndefined) =
       (\<lparr>var_ctx = JStr ''ctx'', var_paths = Some [''a'']\<rparr>, [CreateContext],
        Inr \<lparr>own = [(''0'', JUndefined)], proto = None\<rparr>)
   \<and> requestHandlerInner ex_imports (ex_opts ''constructor'' ''a'' [] JUndefined) =
       ([CreateContext,
         CallProcedure (JStr ''ctx'') ''a'' JUndefined (Inherited ''constructor'')],
        Inr \<lparr>status = 200, body = Some ''result'',
             headers = Some [(''Content-Type'', HString ''application/json'')]\<rparr>)
   \<and> procedure_type ''PUT'' = Unknown
   \<and> requestHandlerInner ex_imports (ex_opts ''PUT'' ''a'' [] JUndefined) =
       ([], Inr \<lparr>status = 500, body = Some ''error'',
                 headers = Some [(''Content-Type'', HString ''application/json'')]\<rparr>)"
  by code_simp

subsection \<open>Request-level failures\<close>




subsection \<open>The shape of a batch input\<close>




subsection \<open>The keys of a batch input\<close>

text \<open>
  C3, as the code has it. For a batch call the raw input must be a non-null, non-array
  object, or \<open>getInputs\<close> throws \<open>BAD_REQUEST\<close>. No key is checked, rejected or coerced.
  The value under every key of the object is deserialized on its own by the transformer
  of the router, in the order of the keys, except an \<open>undefined\<close> value, which is kept as
  it is; when a value does not deserialize, \<open>getInputs\<close> throws. Otherwise the keys of
  the inputs are the keys of the raw input other than \<open>__proto__\<close>, each, whatever its
  form, under its own name with its deserialized value (the keys of an object being
  distinct); and when the raw input has no key \<open>__proto__\<close>, the call at index \<open>i\<close>
  reads the value kept under the decimal string of \<open>i\<close>, and \<open>undefined\<close> when no key
  is that string.
\<close>

theorem batch_inputs:
  "(eq_null rawInput \<or> typeof rawInput \<noteq> ''object'' \<or> isArray rawInput \<longrightarrow>
      getInputs r True rawInput =
        ([], Inl (ThrownTRPCError (TRPCError BAD_REQUEST (Some batch_input_message) None))))
   \<and> (\<forall>kvs. rawInput = JObj kvs
         \<and> (\<forall>x \<in> set kvs. snd x \<noteq> JUndefined \<longrightarrow> (\<exists>w. deserialize r (snd x) = Inr w)) \<longrightarrow>
       (\<exists>inputs. getInputs r True rawInput =
                    (map Deserialize (filter (\<lambda>x. x \<noteq> JUndefined) (map snd kvs)), Inr inputs)
          \<and> fst ` set (own inputs) = fst ` set kvs - {''__proto__''}
          \<and> (distinct (map fst kvs) \<longrightarrow>
               (\<forall>k x. (k, x) \<in> set kvs \<and> k \<noteq> ''__proto__'' \<longrightarrow>
                  (\<exists>w. map_of (own inputs) k = Some w
                     \<and> (if x = JUndefined then w = JUndefined else deserialize r x = Inr w))))
          \<and> (''__proto__'' \<notin> fst ` set kvs \<longrightarrow>
               (\<forall>i. get_index inputs i =
                      (case map_of (own inputs) (ToString i) of
                         Some w \<Rightarrow> w
                       | None \<Rightarrow> JUndefined)))))
   \<and> (\<forall>kvs k x t. rawInput = JObj kvs \<and> (k, x) \<in> set kvs \<and> x \<noteq> JUndefined
         \<and> deserialize r x = Inl t \<longrightarrow>
       (\<exists>l t'. getInputs r True rawInput = (l, Inl t')))"
proof (intro conjI allI impI)
  assume "eq_null rawInput \<or> typeof rawInput \<noteq> ''object'' \<or> isArray rawInput"
  then show "getInputs r True rawInput =
        ([], Inl (ThrownTRPCError (TRPCError BAD_REQUEST (Some batch_input_message) None)))"
    by (simp add: getInputs_def)
next
  fix kvs
  assume a: "rawInput = JObj kvs
         \<and> (\<forall>x \<in> set kvs. snd x \<noteq> JUndefined \<longrightarrow> (\<exists>w. deserialize r (snd x) = Inr w))"
  let ?empty = "\<lparr>own = [], proto = None\<rparr>"
  from a have g: "getInputs r True rawInput = getInputs_loop r kvs ?empty"
    by (simp add: getInputs_def)
  obtain l inputs where s: "getInputs_loop r kvs ?empty = (l, Inr inputs)"
    using getInputs_loop_succeeds [of kvs r ?empty] a by blast
  have v: "\<exists>w. map_of (own inputs) k = Some w
             \<and> (if x = JUndefined then w = JUndefined else deserialize r x = Inr w)"
    if dk: "distinct (map fst kvs)" and mem: "(k, x) \<in> set kvs \<and> k \<noteq> ''__proto__''" for k x
  proof -
    from mem have m1: "(k, x) \<in> set kvs" and m2: "k \<noteq> ''__proto__''" by blast+
    obtain w where d: "snd (deserializeInputValue r x) = Inr w"
      and m: "map_of (own inputs) k = Some w"
      using getInputs_loop_value [OF s dk m1 m2] by auto
    have "if x = JUndefined then w = JUndefined else deserialize r x = Inr w"
      using d [unfolded deserializeInputValue_result] by (cases "x = JUndefined") simp_all
    with m show ?thesis by simp
  qed
  have e1: "getInputs r True rawInput =
          (map Deserialize (filter (\<lambda>x. x \<noteq> JUndefined) (map snd kvs)), Inr inputs)"
    using getInputs_loop_result [OF s] g s by simp
  have e2: "fst ` set (own inputs) = fst ` set kvs - {''__proto__''}"
    using getInputs_loop_result [OF s] by simp
  have p: "\<forall>i. get_index inputs i =
                  (case map_of (own inputs) (ToString i) of Some w \<Rightarrow> w | None \<Rightarrow> JUndefined)"
    if "''__proto__'' \<notin> fst ` set kvs"
  proof -
    have "proto inputs = None"
      using getInputs_loop_result [OF s] that by simp
    then show ?thesis
      using get_index_no_proto by blast
  qed
  show "\<exists>inputs. getInputs r True rawInput =
                    (map Deserialize (filter (\<lambda>x. x \<noteq> JUndefined) (map snd kvs)), Inr inputs)
          \<and> fst ` set (own inputs) = fst ` set kvs - {''__proto__''}
          \<and> (distinct (map fst kvs) \<longrightarrow>
               (\<forall>k x. (k, x) \<in> set kvs \<and> k \<noteq> ''__proto__'' \<longrightarrow>
                  (\<exists>w. map_of (own inputs) k = Some w
                     \<and> (if x = JUndefined then w = JUndefined else deserialize r x = Inr w))))
          \<and> (''__proto__'' \<notin> fst ` set kvs \<longrightarrow>
               (\<forall>i. get_index inputs i =
                      (case map_of (own inputs) (ToString i) of
                         Some w \<Rightarrow> w
                       | None \<Rightarrow> JUndefined)))"
  proof (rule exI [of _ inputs], intro conjI impI allI)
    show "getInputs r True rawInput =
          (map Deserialize (filter (\<lambda>x. x \<noteq> JUndefined) (map snd kvs)), Inr inputs)"
      by (rule e1)
    show "fst ` set (own inputs) = fst ` set kvs - {''__proto__''}"
      by (rule e2)
    show "\<exists>w. map_of (own inputs) k = Some w
             \<and> (if x = JUndefined then w = JUndefined else deserialize r x = Inr w)"
      if "distinct (map fst kvs)" and "(k, x) \<in> set kvs \<and> k \<noteq> ''__proto__''" for k x
      using v [OF that] .
    show "get_index inputs i =
            (case map_of (own inputs) (ToString i) of Some w \<Rightarrow> w | None \<Rightarrow> JUndefined)"
      if "''__proto__'' \<notin> fst ` set kvs" for i
      using p [OF that] by blast
  qed
next
  fix kvs k x t
  assume a: "rawInput = JObj kvs \<and> (k, x) \<in> set kvs \<and> x \<noteq> JUndefined \<and> deserialize r x = Inl t"
  then have "getInputs r True rawInput = getInputs_loop r kvs \<lparr>own = [], proto = None\<rparr>"
    by (simp add: getInputs_def)
  moreover have "\<exists>l t'. getInputs_loop r kvs \<lparr>own = [], proto = None\<rparr> = (l, Inl t')"
    using getInputs_loop_fails [of k x kvs r t] a by blast
  ultimately show "\<exists>l t'. getInputs r True rawInput = (l, Inl t')"
    by simp
qed

theorem batch_inputs_witness:
  "isArray (JArr [JNum 1, JNum 2])
   \<and> getInputs ex_router True (JArr [JNum 1, JNum 2]) =
       ([], Inl (ThrownTRPCError (TRPCError BAD_REQUEST (Some batch_input_message) None)))
   \<and> deserialize ex_router (JNum 1) = Inr (JNum 1)
   \<and> deserialize ex_router (JNum 3) = Inr (JNum 3)
   \<and> distinct (map fst [(''0'', JNum 1), (''abc'', JNum 3)])
   \<and> ''__proto__'' \<notin> fst ` set [(''0'', JNum 1), (''abc'', JNum 3)]
   \<and> (\<exists>inputs. getInputs ex_router True (JObj [(''0'', JNum 1), (''abc'', JNum 3)]) =
                  ([Deserialize (JNum 1), Deserialize (JNum 3)], Inr inputs)
         \<and> fst ` set (own inputs) = {''0'', ''abc''}
         \<and> map_of (own inputs) ''abc'' = Some (JNum 3)
         \<and> get_index inputs 0 = JNum 1
         \<and> get_index inputs 1 = JUndefined)
   \<and> deserialize ex_router (JStr ''bad'') = Inl (ThrownError ''cannot deserialize'')
   \<and> (\<exists>l t'. getInputs ex_router True (JObj [(''0'', JStr ''bad'')]) = (l, Inl t'))"
proof -
  let ?kvs = "[(''0'', JNum 1), (''abc'', JNum 3)]"
  have a: "isArray (JArr [JNum 1, JNum 2])" by simp
  have b: "getInputs ex_router True (JArr [JNum 1, JNum 2]) =
       ([], Inl (ThrownTRPCError (TRPCError BAD_REQUEST (Some batch_input_message) None)))"
    using batch_inputs [of "JArr [JNum 1, JNum 2]" ex_router, THEN conjunct1] a by simp
  have c1: "deserialize ex_router (JNum 1) = Inr (JNum 1)"
    and c3: "deserialize ex_router (JNum 3) = Inr (JNum 3)"
    by (simp_all add: ex_router_def)
  have c: "\<forall>x \<in> set ?kvs. snd x \<noteq> JUndefined \<longrightarrow> (\<exists>w. deserialize ex_router (snd x) = Inr w)"
    using c1 c3 by simp
  have dk: "distinct (map fst ?kvs)" by simp
  have np: "''__proto__'' \<notin> fst ` set ?kvs" by simp
  note t = batch_inputs [of "JObj ?kvs" ex_router, THEN conjunct2, THEN conjunct1, rule_format, of ?kvs]
  obtain inputs where
    i1: "getInputs ex_router True (JObj ?kvs) =
           (map Deserialize (filter (\<lambda>x. x \<noteq> JUndefined) (map snd ?kvs)), Inr inputs)"
    and i2: "fst ` set (own inputs) = fst ` set ?kvs - {''__proto__''}"
    and i3: "distinct (map fst ?kvs) \<longrightarrow>
               (\<forall>k x. (k, x) \<in> set ?kvs \<and> k \<noteq> ''__proto__'' \<longrightarrow>
                  (\<exists>w. map_of (own inputs) k = Some w
                     \<and> (if x = JUndefined then w = JUndefined
                         else deserialize ex_router x = Inr w)))"
    and i4: "''__proto__'' \<notin> fst ` set ?kvs \<longrightarrow>
               (\<forall>i. get_index inputs i =
                      (case map_of (own inputs) (ToString i) of
                         Some w \<Rightarrow> w
                       | None \<Rightarrow> JUndefined))"
    using t [OF conjI [OF refl c]] by blast
  have "\<exists>w. map_of (own inputs) ''0'' = Some w \<and> deserialize ex_router (JNum 1) = Inr w"
    using i3 [rule_format, OF dk, of "''0''" "JNum 1"] by simp
  then have k0: "map_of (own inputs) ''0'' = Some (JNum 1)"
    using c1 by auto
  have "\<exists>w. map_of (own inputs) ''abc'' = Some w \<and> deserialize ex_router (JNum 3) = Inr w"
    using i3 [rule_format, OF dk, of "''abc''" "JNum 3"] by simp
  then have kabc: "map_of (own inputs) ''abc'' = Some (JNum 3)"
    using c3 by auto
  have i2': "fst ` set (own inputs) = {''0'', ''abc''}"
    using i2 by (simp add: insert_Diff_if)
  have k1: "map_of (own inputs) ''1'' = None"
    using i2' by (simp add: map_of_eq_None_iff)
  have g0: "get_index inputs 0 = JNum 1"
    using i4 np k0 by (simp add: ToString.simps)
  have g1: "get_index inputs 1 = JUndefined"
    using i4 np k1 by (simp add: ToString.simps)
  have i1': "getInputs ex_router True (JObj ?kvs) =
              ([Deserialize (JNum 1), Deserialize (JNum 3)], Inr inputs)"
    using i1 by simp
  have d: "deserialize ex_router (JStr ''bad'') = Inl (ThrownError ''cannot deserialize'')"
    by (simp add: ex_router_def)
  have f: "\<exists>l t'. getInputs ex_router True (JObj [(''0'', JStr ''bad'')]) = (l, Inl t')"
    using batch_inputs [of "JObj [(''0'', JStr ''bad'')]" ex_router, THEN conjunct2, THEN conjunct2,
        rule_format, of "[(''0'', JStr ''bad'')]" "''0''" "JStr ''bad''" "ThrownError ''cannot deserialize''"]
      d by simp
  show ?thesis
    using a b c1 c3 dk np i1' i2' kabc g0 g1 d f by blast
qed

text \<open>
  C3 as the specification words it (a key that is not the decimal string of an index is
  rejected) fails: the keys \<open>abc\<close> and \<open>01\<close> are accepted, both values are deserialized,
  the request is served, and the call at index 1 does not receive the value under \<open>01\<close>.
\<close>

theorem batch_keys_not_validated:
  "getInputs ex_router True (JObj [(''abc'', JNum 1), (''01'', JNum 2)]) =
     ([Deserialize (JNum 1), Deserialize (JNum 2)],
      Inr \<lparr>own = [(''abc'', JNum 1), (''01'', JNum 2)], proto = None\<rparr>)
   \<and> requestHandlerInner ex_imports
        (ex_opts ''POST'' ''a,b'' [(''batch'', ''1'')] (JObj [(''abc'', JNum 1), (''01'', JNum 2)])) =
       ([CreateContext, Deserialize (JNum 1), Deserialize (JNum 2),
         CallProcedure (JStr ''ctx'') ''a'' JUndefined Mutation,
         CallProcedure (JStr ''ctx'') ''b'' JUndefined Mutation],
        Inr \<lparr>status = 200, body = Some ''[result,result]'',
             headers = Some [(''Content-Type'', HString ''application/json'')]\<rparr>)"
  by code_simp

subsection \<open>A batch input without the key of a call\<close>

text \<open>
  In a batch request that passes the gates, let the raw input have neither the decimal
  string of the index \<open>i\<close> of a path nor \<open>__proto__\<close> among its keys. Then the call at
  \<open>i\<close> is made with input \<open>undefined\<close>, and the transformer was invoked on the defined
  values of the raw input only.
\<close>

lemma missing_batch_input:
  assumes "isBatchCall (req opts)"
    and "gates env opts = (v, l, Inr inputs)"
    and "getRawProcedureInputOrThrow env (req opts) = Inr rawInput"
    and "i < length (split_on CHR '','' (path opts))"
    and "ToString i \<notin> fst ` set (entries rawInput)"
    and "''__proto__'' \<notin> fst ` set (entries rawInput)"
  shows "get_index inputs i = JUndefined
     \<and> l = CreateContext # map Deserialize (filter (\<lambda>x. x \<noteq> JUndefined) (map snd (entries rawInput)))
     \<and> CallProcedure (var_ctx v) (split_on CHR '','' (path opts) ! i) JUndefined
          (procedure_type (method (req opts))) \<in> set (fst (requestHandlerInner env opts))"
proof -
  obtain l0 where gi: "getInputs (router opts) True rawInput = (l0, Inr inputs)"
    and l: "l = CreateContext # l0"
    using gates_pass_inputs [OF assms(2)] assms(1,3) by auto
  have obj: "\<not> (eq_null rawInput \<or> typeof rawInput \<noteq> ''object'' \<or> isArray rawInput)"
    using gi by (auto simp: getInputs_def split: if_splits)
  then have "getInputs_loop (router opts) (entries rawInput) \<lparr>own = [], proto = None\<rparr> =
               (l0, Inr inputs)"
    using gi by (simp add: getInputs_def)
  from getInputs_loop_result [OF this] assms(6)
  have l0: "l0 = map Deserialize (filter (\<lambda>x. x \<noteq> JUndefined) (map snd (entries rawInput)))"
    and keys: "fst ` set (own inputs) = fst ` set (entries rawInput)"
    and pr: "proto inputs = None"
    by auto
  have u: "get_index inputs i = JUndefined"
    using get_index_absent [of i inputs] keys pr assms(5) by simp
  have p: "split_on CHR '','' (path opts) =
             (if isBatchCall (req opts) then split_on CHR '','' (path opts) else [path opts])"
    using assms(1) by simp
  have "CallProcedure (var_ctx v) (split_on CHR '','' (path opts) ! i) (get_index inputs i)
          (procedure_type (method (req opts))) \<in> set (fst (requestHandlerInner env opts))"
    using handler_calls [OF assms(2) p assms(4)] .
  then show ?thesis
    using u l l0 by simp
qed

text \<open>
  C10. The call at an index whose decimal string is not a key of the raw input does not
  always receive \<open>undefined\<close>. The raw input \<open>{"__proto__": {"0": 5}}\<close> has no key \<open>0\<close>,
  and the call at index 0 receives 5, found through the prototype that the assignment
  \<open>input["__proto__"] = value\<close> installed; the raw input \<open>{"1": 7}\<close> has no key \<open>0\<close>
  either, and the call at index 0 receives \<open>undefined\<close>.
\<close>

theorem missing_batch_input_proto:
  "ToString 0 \<notin> fst ` set (entries (JObj [(''__proto__'', JObj [(''0'', JNum 5)])]))
   \<and> requestHandlerInner ex_imports
        (ex_opts ''POST'' ''a'' [(''batch'', ''1'')] (JObj [(''__proto__'', JObj [(''0'', JNum 5)])])) =
       ([CreateContext, Deserialize (JObj [(''0'', JNum 5)]),
         CallProcedure (JStr ''ctx'') ''a'' (JNum 5) Mutation],
        Inr \<lparr>status = 200, body = Some ''[result]'',
             headers = Some [(''Content-Type'', HString ''application/json'')]\<rparr>)
   \<and> ToString 0 \<notin> fst ` set (entries (JObj [(''1'', JNum 7)]))
   \<and> requestHandlerInner ex_imports
        (ex_opts ''POST'' ''a'' [(''batch'', ''1'')] (JObj [(''1'', JNum 7)])) =
       ([CreateContext, Deserialize (JNum 7),
         CallProcedure (JStr ''ctx'') ''a'' JUndefined Mutation],
        Inr \<lparr>status = 200, body = Some ''[result]'',
             headers = Some [(''Content-Type'', HString ''application/json'')]\<rparr>)"
proof (intro conjI)
  show "ToString 0 \<notin> fst ` set (entries (JObj [(''__proto__'', JObj [(''0'', JNum 5)])]))"
    by (simp add: ToString.simps)
  show "requestHandlerInner ex_imports
        (ex_opts ''POST'' ''a'' [(''batch'', ''1'')] (JObj [(''__proto__'', JObj [(''0'', JNum 5)])])) =
       ([CreateContext, Deserialize (JObj [(''0'', JNum 5)]),
         CallProcedure (JStr ''ctx'') ''a'' (JNum 5) Mutation],
        Inr \<lparr>status = 200, body = Some ''[result]'',
             headers = Some [(''Content-Type'', HString ''application/json'')]\<rparr>)"
    by code_simp
  show "ToString 0 \<notin> fst ` set (entries (JObj [(''1'', JNum 7)]))"
    by (simp add: ToString.simps)
  show "requestHandlerInner ex_imports
        (ex_opts ''POST'' ''a'' [(''batch'', ''1'')] (JObj [(''1'', JNum 7)])) =
       ([CreateContext, Deserialize (JNum 7),
         CallProcedure (JStr ''ctx'') ''a'' JUndefined Mutation],
        Inr \<lparr>status = 200, body = Some ''[result]'',
             headers = Some [(''Content-Type'', HString ''application/json'')]\<rparr>)"
    by code_simp
qed

subsection \<open>One envelope per call\<close>




subsection \<open>The \<open>onError\<close> hook\<close>




subsection \<open>The \<open>responseMeta\<close> hook\<close>




end
